theory Spec2Isabelle
  imports Complex_Main "HOL-Library.Multiset"
begin

section \<open>FastScope test SoC on AXAU15: JESD204B lane bring-up and remapping\<close>

text \<open>
  A shallow embedding of \<^verbatim>\<open>axau15_adc08dj5200rf.py\<close>. The script runs once, at
  build time: \<^verbatim>\<open>BaseSoC.__init__\<close> checks its arguments, picks the lane tables, creates
  one GTH4 transceiver per lane and builds the combinational expressions that the
  hardware then evaluates continuously. The model keeps the two levels apart:
  construction is a function that returns either a Python exception or the constructed
  SoC, and the constructed expressions are a small datatype evaluated under a valuation
  of the live signals.
\<close>

subsection \<open>Python values and exceptions\<close>

datatype error = AssertionError | UnboundLocalError | IndexError | TypeError | ConstraintError

definition bind_err :: "error + 'a \<Rightarrow> ('a \<Rightarrow> error + 'b) \<Rightarrow> error + 'b" where
  "bind_err m f = (case m of Inl e \<Rightarrow> Inl e | Inr x \<Rightarrow> f x)"

text \<open>A local variable that no branch has assigned raises when it is read.\<close>

definition read_local :: "'a option \<Rightarrow> error + 'a" where
  "read_local v = (case v of None \<Rightarrow> Inl UnboundLocalError | Some x \<Rightarrow> Inr x)"

text \<open>\<^verbatim>\<open>xs[i]\<close>: a negative index counts from the end, anything out of range raises.\<close>

definition getitem :: "'a list \<Rightarrow> int \<Rightarrow> error + 'a" where
  "getitem xs i =
     (if 0 \<le> i \<and> i < int (length xs) then Inr (xs ! nat i)
      else if i < 0 \<and> 0 \<le> int (length xs) + i then Inr (xs ! nat (int (length xs) + i))
      else Inl IndexError)"

text \<open>\<^verbatim>\<open>range(n)\<close>: empty for \<open>n \<le> 0\<close>.\<close>

definition range_py :: "int \<Rightarrow> int list" where
  "range_py n = map int [0..<nat n]"

text \<open>\<^verbatim>\<open>functools.reduce(f, xs)\<close> without an initial value: a left fold, TypeError on
  the empty sequence.\<close>

fun reduce :: "('a \<Rightarrow> 'a \<Rightarrow> 'a) \<Rightarrow> 'a list \<Rightarrow> error + 'a" where
  "reduce f [] = Inl TypeError"
| "reduce f (x # xs) = Inr (foldl f x xs)"

subsection \<open>Signals and combinational expressions\<close>

text \<open>
  The live one-bit signals the script combines: \<^verbatim>\<open>tx_init.done\<close> and
  \<^verbatim>\<open>rx_init.done\<close> of the GTH4 on lane pads \<open>i\<close>, and \<^verbatim>\<open>enable\<close> and
  \<^verbatim>\<open>jsync\<close> of \<^verbatim>\<open>jesd_rx_core\<close>. \<^verbatim>\<open>and_(a, b)\<close> and \<^verbatim>\<open>a & b\<close> build an
  AND node, \<^verbatim>\<open>~a\<close> a NOT node.
\<close>

datatype signal = TxInitDone int | RxInitDone int | CoreEnable | CoreJsync

datatype expr = Sig signal | OpAnd expr expr | OpNot expr

fun eval_expr :: "(signal \<Rightarrow> bool) \<Rightarrow> expr \<Rightarrow> bool" where
  "eval_expr env (Sig s) = env s"
| "eval_expr env (OpAnd a b) = (eval_expr env a \<and> eval_expr env b)"
| "eval_expr env (OpNot a) = (\<not> eval_expr env a)"

subsection \<open>The FMC extension: lane pads\<close>

text \<open>\<^verbatim>\<open>adc08dj5200rf_fms_ios\<close> declares receive and transmit lane pads 0 to 7;
  requesting any other index fails.\<close>

definition adc08dj5200rf_lane_pads :: "int list" where
  "adc08dj5200rf_lane_pads = [0, 1, 2, 3, 4, 5, 6, 7]"

definition request_lane :: "int \<Rightarrow> error + int" where
  "request_lane i = (if i \<in> set adc08dj5200rf_lane_pads then Inr i else Inl ConstraintError)"

subsection \<open>Transceivers and JESD settings\<close>

record GTH4 =
  tx_pads :: int
  rx_pads :: int
  data_width :: int
  clock_aligner :: bool
  tx_buffer_enable :: bool
  rx_buffer_enable :: bool
  tx_polarity :: int
  rx_polarity :: int
  tx_init_done :: expr
  rx_init_done :: expr
  phy_n :: "int option"

text \<open>The constructor call of lines 286 to 293; the init-done signals of the new
  transceiver are those of the lane its pads belong to.\<close>

definition GTH4_new :: "int \<Rightarrow> int \<Rightarrow> int \<Rightarrow> GTH4" where
  "GTH4_new jesd_tx_pads jesd_rx_pads rx_pol =
     \<lparr> tx_pads = jesd_tx_pads, rx_pads = jesd_rx_pads,
       data_width = 40, clock_aligner = False,
       tx_buffer_enable = True, rx_buffer_enable = True,
       tx_polarity = 0, rx_polarity = rx_pol,
       tx_init_done = Sig (TxInitDone jesd_tx_pads),
       rx_init_done = Sig (RxInitDone jesd_rx_pads),
       phy_n = None \<rparr>"

record JESD204BPhysicalSettings =
  ps_l :: int
  ps_m :: int
  ps_n :: int
  ps_np :: int

record JESD204BTransportSettings =
  ts_f :: int
  ts_s :: int
  ts_k :: int
  ts_cs :: int

record JESD204BSettings =
  phy_settings :: JESD204BPhysicalSettings
  transport_settings :: JESD204BTransportSettings
  did :: int
  bid :: int
  framing :: bool
  scrambling :: bool

record LiteJESD204BCoreRX =
  core_phys :: "GTH4 list"
  core_settings :: JESD204BSettings
  converter_data_width :: int
  core_scrambling :: bool
  core_stpl_random :: bool

subsection \<open>BaseSoC\<close>

record kwargs =
  sys_clk_freq :: real
  with_led_chaser :: bool
  with_pcie :: bool
  jesd_lanes :: int
  jesd_framing :: bool
  jesd_scrambling :: bool
  jesd_stpl_random :: bool

text \<open>The defaults of the signature, lines 170 to 177.\<close>

definition BaseSoC_defaults :: kwargs where
  "BaseSoC_defaults =
     \<lparr> sys_clk_freq = 125000000, with_led_chaser = True, with_pcie = False,
       jesd_lanes = 4, jesd_framing = True, jesd_scrambling = True,
       jesd_stpl_random = False \<rparr>"

record soc =
  has_pcie_phy :: bool
  has_leds :: bool
  adc08dj_phy_rx_order :: "int list"
  adc08dj_phy_rx_polarity :: "int list"
  settings_rx :: JESD204BSettings
  jesd_phys :: "GTH4 list"
  jesd_phys_tx_init_done :: expr
  jesd_phys_rx_init_done :: expr
  cd_jesd_async_reset :: expr
  jesd_phys_rx :: "GTH4 list"
  jesd_rx_core :: LiteJESD204BCoreRX
  jesd_link_status :: expr

text \<open>Lines 218 to 223: two independent \<^verbatim>\<open>if\<close>s assign the order and polarity tables;
  for any other lane count both names stay unassigned.\<close>

definition rx_tables :: "int \<Rightarrow> (int list \<times> int list) option" where
  "rx_tables lanes =
     (let t = (if lanes = 4 then Some ([3, 0, 2, 1], [0, 0, 0, 0]) else None)
      in if lanes = 8 then Some ([3, 0, 2, 1, 7, 4, 6, 5], [0, 0, 0, 0, 1, 1, 1, 1]) else t)"

text \<open>Lines 229 to 232, the same pattern for the physical settings.\<close>

definition rx_physical_settings :: "int \<Rightarrow> JESD204BPhysicalSettings option" where
  "rx_physical_settings lanes =
     (let p = (if lanes = 4 then Some \<lparr> ps_l = 4, ps_m = 4, ps_n = 8, ps_np = 8 \<rparr> else None)
      in if lanes = 8 then Some \<lparr> ps_l = 8, ps_m = 8, ps_n = 8, ps_np = 8 \<rparr> else p)"

text \<open>The loop of lines 283 to 305 over \<^verbatim>\<open>range(jesd_lanes)\<close>, appending one transceiver
  per index; the polarity table is read at the physical index \<open>i\<close>.\<close>

fun jesd_phys_loop :: "(int list \<times> int list) option \<Rightarrow> int list \<Rightarrow> GTH4 list \<Rightarrow> error + GTH4 list" where
  "jesd_phys_loop tables [] phys = Inr phys"
| "jesd_phys_loop tables (i # rest) phys =
     bind_err (request_lane i) (\<lambda>jesd_tx_pads.
     bind_err (request_lane i) (\<lambda>jesd_rx_pads.
     bind_err (read_local tables) (\<lambda>t.
     bind_err (getitem (snd t) i) (\<lambda>pol.
       jesd_phys_loop tables rest
         (phys @ [(GTH4_new jesd_tx_pads jesd_rx_pads pol)\<lparr> phy_n := Some i \<rparr>])))))"

text \<open>Line 311, \<^verbatim>\<open>[jesd_phys[n] for n in adc08dj_phy_rx_order]\<close>.\<close>

fun select_phys :: "GTH4 list \<Rightarrow> int list \<Rightarrow> error + GTH4 list" where
  "select_phys phys [] = Inr []"
| "select_phys phys (n # rest) =
     bind_err (getitem phys n) (\<lambda>p.
     bind_err (select_phys phys rest) (\<lambda>ps. Inr (p # ps)))"

text \<open>Everything after the assertion of line 178.\<close>

definition BaseSoC_body :: "kwargs \<Rightarrow> error + soc" where
  "BaseSoC_body kw =
     (let tables = rx_tables (jesd_lanes kw) in
      bind_err (read_local (rx_physical_settings (jesd_lanes kw))) (\<lambda>ps_rx.
      let ts_rx = \<lparr> ts_f = 2, ts_s = 1, ts_k = 32, ts_cs = 0 \<rparr>;
          settings = \<lparr> phy_settings = ps_rx, transport_settings = ts_rx,
                       did = 0x5a, bid = 0x5,
                       framing = jesd_framing kw, scrambling = jesd_scrambling kw \<rparr> in
      bind_err (jesd_phys_loop tables (range_py (jesd_lanes kw)) []) (\<lambda>phys.
      bind_err (reduce OpAnd (map tx_init_done phys)) (\<lambda>tx_done.
      bind_err (reduce OpAnd (map rx_init_done phys)) (\<lambda>rx_done.
      bind_err (read_local tables) (\<lambda>t.
      bind_err (select_phys phys (fst t)) (\<lambda>phys_rx.
        Inr \<lparr> has_pcie_phy = with_pcie kw,
              has_leds = with_led_chaser kw,
              adc08dj_phy_rx_order = fst t,
              adc08dj_phy_rx_polarity = snd t,
              settings_rx = settings,
              jesd_phys = phys,
              jesd_phys_tx_init_done = tx_done,
              jesd_phys_rx_init_done = rx_done,
              cd_jesd_async_reset = OpNot (OpAnd tx_done rx_done),
              jesd_phys_rx = phys_rx,
              jesd_rx_core =
                \<lparr> core_phys = phys_rx, core_settings = settings,
                  converter_data_width = jesd_lanes kw * 8,
                  core_scrambling = jesd_scrambling kw,
                  core_stpl_random = jesd_stpl_random kw \<rparr>,
              jesd_link_status =
                OpAnd (OpAnd (Sig CoreEnable) (Sig CoreJsync))
                      (OpAnd (Sig CoreEnable) (Sig CoreJsync)) \<rparr>)))))))"

text \<open>\<^verbatim>\<open>BaseSoC.__init__\<close>: line 178, \<^verbatim>\<open>assert jesd_lanes in [4, 8]\<close>, then the body.\<close>

definition BaseSoC :: "kwargs \<Rightarrow> error + soc" where
  "BaseSoC kw =
     (if jesd_lanes kw \<in> set [4, 8] then BaseSoC_body kw else Inl AssertionError)"


subsection \<open>The barrier and the reset of the jesd clock domain\<close>

text \<open>Line 309 hands \<^verbatim>\<open>~(jesd_phys_tx_init_done & jesd_phys_rx_init_done)\<close> to the
  reset synchronizer of \<^verbatim>\<open>cd_jesd\<close>. The operand of the negation is the barrier
  condition, read under the current values of the signals.\<close>

definition all_ready :: "soc \<Rightarrow> (signal \<Rightarrow> bool) \<Rightarrow> bool" where
  "all_ready s env = eval_expr env (OpAnd (jesd_phys_tx_init_done s) (jesd_phys_rx_init_done s))"

text \<open>The barrier in the words of the specification: the AND, across every lane \<open>i\<close>
  in \<open>[0, N)\<close>, of \<open>tx_done(i) AND rx_done(i)\<close>.\<close>

definition all_ready_spec :: "int \<Rightarrow> (signal \<Rightarrow> bool) \<Rightarrow> bool" where
  "all_ready_spec N env = list_all (\<lambda>i. env (TxInitDone i) \<and> env (RxInitDone i)) (range_py N)"

subsection \<open>The lane tables as the specification reads them\<close>

text \<open>The tables hold Python integers 0 and 1; the specification speaks of booleans.
  \<open>truth\<close> is Python's truth value of an integer.\<close>

definition truth :: "int \<Rightarrow> bool" where
  "truth p = (p \<noteq> 0)"

text \<open>The lookup in the words of the specification, section 4.3: two defined inputs.\<close>

definition remap_spec :: "int \<Rightarrow> (int list \<times> bool list) option" where
  "remap_spec lane_count =
     (if lane_count = 4 then Some ([3, 0, 2, 1], [False, False, False, False])
      else if lane_count = 8 then
        Some ([3, 0, 2, 1, 7, 4, 6, 5], [False, False, False, False, True, True, True, True])
      else None)"

subsection \<open>The build driver\<close>

text \<open>The namespace that \<^verbatim>\<open>parse_args\<close> returns: the four declared options.\<close>

record args =
  build :: bool
  load :: bool
  args_sys_clk_freq :: real
  driver :: bool

datatype action = AddJesdRxProbe | Build | GenerateDriver | LoadBitstream

record main_result =
  main_soc :: soc
  main_actions :: "action list"

text \<open>Lines 359 to 361: the only keyword argument passed is \<^verbatim>\<open>sys_clk_freq\<close>.\<close>

definition main_kwargs :: "args \<Rightarrow> kwargs" where
  "main_kwargs a = BaseSoC_defaults\<lparr> sys_clk_freq := args_sys_clk_freq a \<rparr>"

definition main :: "args \<Rightarrow> error + main_result" where
  "main a =
     bind_err (BaseSoC (main_kwargs a)) (\<lambda>s.
       Inr \<lparr> main_soc = s,
             main_actions =
               [AddJesdRxProbe]
               @ (if build a then [Build] else [])
               @ (if driver a then [GenerateDriver] else [])
               @ (if load a then [LoadBitstream] else []) \<rparr>)"

subsection \<open>The reset synchronizer of the jesd clock domain\<close>

text \<open>The two states of the dependent clock domain.\<close>

datatype cd_state = HELD_RESET | ACTIVE

text \<open>Modelled from the spec: the class \<^verbatim>\<open>AsyncResetSynchronizer\<close>, which line 14
  imports from migen and whose code is not among the sources of this repository. The
  specification describes it as a resampling of the reset condition with a single-step
  delay: the domain is held in reset whenever the condition handed to it asks for reset,
  and is released when it no longer does. One step takes the sampled value of the
  asynchronous reset input and the current state of the domain to the next state.\<close>

fun AsyncResetSynchronizer_step :: "bool \<Rightarrow> cd_state \<Rightarrow> cd_state" where
  "AsyncResetSynchronizer_step async_reset HELD_RESET =
     (if async_reset then HELD_RESET else ACTIVE)"
| "AsyncResetSynchronizer_step async_reset ACTIVE =
     (if async_reset then HELD_RESET else ACTIVE)"

text \<open>Line 309: the synchronizer of \<^verbatim>\<open>cd_jesd\<close> is driven by the expression built
  there, read under the current values of the signals.\<close>

definition cd_jesd_step :: "soc \<Rightarrow> (signal \<Rightarrow> bool) \<Rightarrow> cd_state \<Rightarrow> cd_state" where
  "cd_jesd_step s env st = AsyncResetSynchronizer_step (eval_expr env (cd_jesd_async_reset s)) st"

text \<open>The domain over a sequence of successive signal valuations, oldest first.\<close>

definition cd_jesd_run :: "soc \<Rightarrow> (signal \<Rightarrow> bool) list \<Rightarrow> cd_state \<Rightarrow> cd_state" where
  "cd_jesd_run s envs st = foldl (\<lambda>st' env. cd_jesd_step s env st') st envs"

section \<open>Auxiliary facts\<close>

abbreviation lane_phy :: "int \<Rightarrow> int \<Rightarrow> GTH4" where
  "lane_phy i pol \<equiv> (GTH4_new i i pol)\<lparr> phy_n := Some i \<rparr>"

lemma range_py_4: "range_py 4 = [0, 1, 2, 3]"
  by (simp add: range_py_def upt_rec)

lemma range_py_8: "range_py 8 = [0, 1, 2, 3, 4, 5, 6, 7]"
  by (simp add: range_py_def upt_rec)

lemma set_range_py: "set (range_py n) = {i. 0 \<le> i \<and> i < n}"
proof -
  have "int ` {0..<nat n} = {i. 0 \<le> i \<and> i < n}"
  proof (rule set_eqI)
    fix i :: int
    show "i \<in> int ` {0..<nat n} \<longleftrightarrow> i \<in> {i. 0 \<le> i \<and> i < n}"
    proof
      assume "i \<in> int ` {0..<nat n}"
      then show "i \<in> {i. 0 \<le> i \<and> i < n}" by auto
    next
      assume "i \<in> {i. 0 \<le> i \<and> i < n}"
      then have "i = int (nat i)" and "nat i \<in> {0..<nat n}" by auto
      then show "i \<in> int ` {0..<nat n}" by (rule image_eqI)
    qed
  qed
  then show ?thesis by (simp add: range_py_def)
qed

lemma BaseSoC_lanes: "BaseSoC kw = Inr s \<Longrightarrow> jesd_lanes kw = 4 \<or> jesd_lanes kw = 8"
  by (simp add: BaseSoC_def split: if_splits)

lemma jesd_phys_loop_4:
  "jesd_phys_loop (Some (ord, [0, 0, 0, 0])) (range_py 4) [] =
     Inr [lane_phy 0 0, lane_phy 1 0, lane_phy 2 0, lane_phy 3 0]"
  by (simp add: range_py_4 bind_err_def request_lane_def
      adc08dj5200rf_lane_pads_def read_local_def getitem_def)

lemma jesd_phys_loop_8:
  "jesd_phys_loop (Some (ord, [0, 0, 0, 0, 1, 1, 1, 1])) (range_py 8) [] =
     Inr [lane_phy 0 0, lane_phy 1 0, lane_phy 2 0, lane_phy 3 0,
          lane_phy 4 1, lane_phy 5 1, lane_phy 6 1, lane_phy 7 1]"
  by (simp add: range_py_8 bind_err_def request_lane_def
      adc08dj5200rf_lane_pads_def read_local_def getitem_def)

lemma select_phys_4:
  "select_phys [p0, p1, p2, p3] [3, 0, 2, 1] = Inr [p3, p0, p2, p1]"
  by (simp add: bind_err_def getitem_def)

lemma select_phys_8:
  "select_phys [p0, p1, p2, p3, p4, p5, p6, p7] [3, 0, 2, 1, 7, 4, 6, 5] =
     Inr [p3, p0, p2, p1, p7, p4, p6, p5]"
  by (simp add: bind_err_def getitem_def)

lemma BaseSoC_4:
  assumes "jesd_lanes kw = 4" and "BaseSoC kw = Inr s"
  shows "adc08dj_phy_rx_order s = [3, 0, 2, 1]"
    and "adc08dj_phy_rx_polarity s = [0, 0, 0, 0]"
    and "jesd_phys s = [lane_phy 0 0, lane_phy 1 0, lane_phy 2 0, lane_phy 3 0]"
    and "jesd_phys_rx s = [lane_phy 3 0, lane_phy 0 0, lane_phy 2 0, lane_phy 1 0]"
    and "core_phys (jesd_rx_core s) = jesd_phys_rx s"
    and "jesd_phys_tx_init_done s =
           OpAnd (OpAnd (OpAnd (Sig (TxInitDone 0)) (Sig (TxInitDone 1))) (Sig (TxInitDone 2)))
                 (Sig (TxInitDone 3))"
    and "jesd_phys_rx_init_done s =
           OpAnd (OpAnd (OpAnd (Sig (RxInitDone 0)) (Sig (RxInitDone 1))) (Sig (RxInitDone 2)))
                 (Sig (RxInitDone 3))"
  using assms
  by (auto simp add: BaseSoC_def BaseSoC_body_def jesd_phys_loop_4 select_phys_4
      rx_physical_settings_def read_local_def bind_err_def rx_tables_def GTH4_new_def Let_def getitem_def)


lemma BaseSoC_8:
  assumes "jesd_lanes kw = 8" and "BaseSoC kw = Inr s"
  shows "adc08dj_phy_rx_order s = [3, 0, 2, 1, 7, 4, 6, 5]"
    and "adc08dj_phy_rx_polarity s = [0, 0, 0, 0, 1, 1, 1, 1]"
    and "jesd_phys s = [lane_phy 0 0, lane_phy 1 0, lane_phy 2 0, lane_phy 3 0,
                        lane_phy 4 1, lane_phy 5 1, lane_phy 6 1, lane_phy 7 1]"
    and "jesd_phys_rx s = [lane_phy 3 0, lane_phy 0 0, lane_phy 2 0, lane_phy 1 0,
                           lane_phy 7 1, lane_phy 4 1, lane_phy 6 1, lane_phy 5 1]"
    and "core_phys (jesd_rx_core s) = jesd_phys_rx s"
    and "jesd_phys_tx_init_done s =
           OpAnd (OpAnd (OpAnd (OpAnd (OpAnd (OpAnd (OpAnd
             (Sig (TxInitDone 0)) (Sig (TxInitDone 1))) (Sig (TxInitDone 2)))
             (Sig (TxInitDone 3))) (Sig (TxInitDone 4))) (Sig (TxInitDone 5)))
             (Sig (TxInitDone 6))) (Sig (TxInitDone 7))"
    and "jesd_phys_rx_init_done s =
           OpAnd (OpAnd (OpAnd (OpAnd (OpAnd (OpAnd (OpAnd
             (Sig (RxInitDone 0)) (Sig (RxInitDone 1))) (Sig (RxInitDone 2)))
             (Sig (RxInitDone 3))) (Sig (RxInitDone 4))) (Sig (RxInitDone 5)))
             (Sig (RxInitDone 6))) (Sig (RxInitDone 7))"
  using assms
  by (auto simp add: BaseSoC_def BaseSoC_body_def jesd_phys_loop_8 select_phys_8
      rx_physical_settings_def read_local_def bind_err_def rx_tables_def GTH4_new_def Let_def getitem_def)

lemma BaseSoC_succeeds:
  assumes "jesd_lanes kw = 4 \<or> jesd_lanes kw = 8"
  shows "\<exists>s. BaseSoC kw = Inr s"
  using assms
  by (auto simp add: BaseSoC_def BaseSoC_body_def jesd_phys_loop_4 jesd_phys_loop_8
      rx_physical_settings_def read_local_def bind_err_def rx_tables_def GTH4_new_def Let_def getitem_def)

lemma BaseSoC_body_unbound:
  assumes "jesd_lanes kw \<noteq> 4" and "jesd_lanes kw \<noteq> 8"
  shows "BaseSoC_body kw = Inl UnboundLocalError"
  using assms
  by (simp add: BaseSoC_body_def rx_physical_settings_def read_local_def bind_err_def Let_def)

lemma BaseSoC_fields:
  assumes "BaseSoC kw = Inr s"
  shows "cd_jesd_async_reset s = OpNot (OpAnd (jesd_phys_tx_init_done s) (jesd_phys_rx_init_done s))"
    and "jesd_link_status s =
           OpAnd (OpAnd (Sig CoreEnable) (Sig CoreJsync)) (OpAnd (Sig CoreEnable) (Sig CoreJsync))"
    and "rx_tables (jesd_lanes kw) = Some (adc08dj_phy_rx_order s, adc08dj_phy_rx_polarity s)"
    and "framing (settings_rx s) = jesd_framing kw"
    and "scrambling (settings_rx s) = jesd_scrambling kw"
    and "core_stpl_random (jesd_rx_core s) = jesd_stpl_random kw"
  using assms
  by (auto simp add: BaseSoC_def BaseSoC_body_def bind_err_def read_local_def Let_def
      split: if_splits sum.splits option.splits)

lemma all_ready_spec_iff:
  "all_ready_spec N env \<longleftrightarrow>
     (\<forall>i. 0 \<le> i \<and> i < N \<longrightarrow> env (TxInitDone i) \<and> env (RxInitDone i))"
  by (simp add: all_ready_spec_def list_all_iff set_range_py)

lemma all_ready_refines_spec:
  assumes "BaseSoC kw = Inr s"
  shows "all_ready s env = all_ready_spec (jesd_lanes kw) env"
proof -
  from assms consider "jesd_lanes kw = 4" | "jesd_lanes kw = 8"
    using BaseSoC_lanes by blast
  then show ?thesis
  proof cases
    case 1
    with assms show ?thesis
      by (auto simp add: all_ready_def all_ready_spec_def range_py_4 BaseSoC_4(6,7))
  next
    case 2
    with assms show ?thesis
      by (auto simp add: all_ready_def all_ready_spec_def range_py_8 BaseSoC_8(6,7))
  qed
qed

lemma jesd_phys_loop_tx_polarity:
  assumes "jesd_phys_loop tables idx acc = Inr phys"
    and "list_all (\<lambda>p. tx_polarity p = 0) acc"
  shows "list_all (\<lambda>p. tx_polarity p = 0) phys"
  using assms
proof (induction idx arbitrary: acc)
  case Nil
  then show ?case by simp
next
  case (Cons i rest)
  from Cons.prems(1) obtain a b t pol where
    step: "jesd_phys_loop tables rest (acc @ [(GTH4_new a b pol)\<lparr> phy_n := Some i \<rparr>]) = Inr phys"
    by (auto simp add: bind_err_def split: sum.splits)
  have "list_all (\<lambda>p. tx_polarity p = 0) (acc @ [(GTH4_new a b pol)\<lparr> phy_n := Some i \<rparr>])"
    using Cons.prems(2) by (simp add: GTH4_new_def)
  with step show ?case by (rule Cons.IH)
qed

lemma getitem_in_set: "getitem xs i = Inr x \<Longrightarrow> x \<in> set xs"
  by (auto simp add: getitem_def split: if_splits)

lemma select_phys_subset:
  "select_phys phys ord = Inr sel \<Longrightarrow> set sel \<subseteq> set phys"
proof (induction ord arbitrary: sel)
  case Nil
  then show ?case by simp
next
  case (Cons n rest)
  from Cons.prems obtain p ps where
    p: "getitem phys n = Inr p" and ps: "select_phys phys rest = Inr ps" and sel: "sel = p # ps"
    by (auto simp add: bind_err_def split: sum.splits)
  from p have "p \<in> set phys" by (rule getitem_in_set)
  moreover from ps have "set ps \<subseteq> set phys" by (rule Cons.IH)
  ultimately show ?case using sel by simp
qed

lemma BaseSoC_body_parts:
  assumes "BaseSoC kw = Inr s"
  shows "jesd_phys_loop (rx_tables (jesd_lanes kw)) (range_py (jesd_lanes kw)) [] = Inr (jesd_phys s)"
    and "select_phys (jesd_phys s) (adc08dj_phy_rx_order s) = Inr (jesd_phys_rx s)"
    and "core_phys (jesd_rx_core s) = jesd_phys_rx s"
  using assms
  by (auto simp add: BaseSoC_def BaseSoC_body_def bind_err_def read_local_def Let_def
      split: if_splits sum.splits option.splits)

lemma lanes_below_4: "0 \<le> k \<Longrightarrow> k < (4::int) \<Longrightarrow> k = 0 \<or> k = 1 \<or> k = 2 \<or> k = 3"
  by arith

lemma lanes_below_8:
  "0 \<le> k \<Longrightarrow> k < (8::int) \<Longrightarrow>
     k = 0 \<or> k = 1 \<or> k = 2 \<or> k = 3 \<or> k = 4 \<or> k = 5 \<or> k = 6 \<or> k = 7"
  by arith

lemma lane_phy_fields:
  "tx_pads (lane_phy i pol) = i"
  "rx_pads (lane_phy i pol) = i"
  "phy_n (lane_phy i pol) = Some i"
  "tx_polarity (lane_phy i pol) = 0"
  "rx_polarity (lane_phy i pol) = pol"
  "tx_init_done (lane_phy i pol) = Sig (TxInitDone i)"
  "rx_init_done (lane_phy i pol) = Sig (RxInitDone i)"
  by (simp_all add: GTH4_new_def)

lemma cd_jesd_step_all_ready:
  assumes "BaseSoC kw = Inr s"
  shows "cd_jesd_step s env st = (if all_ready s env then ACTIVE else HELD_RESET)"
proof -
  have "eval_expr env (cd_jesd_async_reset s) = (\<not> all_ready s env)"
    using BaseSoC_fields(1) [OF assms] by (simp add: all_ready_def)
  then show ?thesis
    by (cases st) (simp_all add: cd_jesd_step_def)
qed

section \<open>The claims\<close>

text \<open>
  C1. For a SoC built with 4 or 8 lanes, the barrier condition, computed as the AND over
  all lanes of tx-done ANDed with the AND over all lanes of rx-done, holds exactly when
  every lane \<open>i\<close> in \<open>[0, N)\<close> has both its tx-done and its rx-done signal true. It equals
  the per-lane conjunction of the specification, and the expression handed to the reset
  synchronizer is its negation. So a single lane that is not done makes it false.
\<close>

theorem all_ready_iff_every_lane_done:
  assumes "BaseSoC kw = Inr s"
  shows "(all_ready s env \<longleftrightarrow>
            (\<forall>i. 0 \<le> i \<and> i < jesd_lanes kw \<longrightarrow> env (TxInitDone i) \<and> env (RxInitDone i)))
       \<and> all_ready s env = all_ready_spec (jesd_lanes kw) env
       \<and> eval_expr env (cd_jesd_async_reset s) = (\<not> all_ready s env)"
proof -
  have spec: "all_ready s env = all_ready_spec (jesd_lanes kw) env"
    using assms by (rule all_ready_refines_spec)
  have rst: "eval_expr env (cd_jesd_async_reset s) = (\<not> all_ready s env)"
    using BaseSoC_fields(1) [OF assms] by (simp add: all_ready_def)
  from spec rst show ?thesis
    by (simp add: all_ready_spec_iff)
qed

text \<open>Eight lanes, lanes 0 to 3 done and lanes 4 to 7 not done: the barrier is false;
  with every lane done it is true.\<close>

theorem all_ready_iff_every_lane_done_witness:
  "\<exists>s. BaseSoC (BaseSoC_defaults\<lparr> jesd_lanes := 8 \<rparr>) = Inr s
       \<and> \<not> all_ready s (\<lambda>sg. case sg of TxInitDone i \<Rightarrow> i < 4 | RxInitDone i \<Rightarrow> i < 4 | _ \<Rightarrow> False)
       \<and> all_ready s (\<lambda>sg. True)"
proof -
  obtain s where s: "BaseSoC (BaseSoC_defaults\<lparr> jesd_lanes := 8 \<rparr>) = Inr s"
    using BaseSoC_succeeds [of "BaseSoC_defaults\<lparr> jesd_lanes := 8 \<rparr>"] by auto
  have "\<not> all_ready s (\<lambda>sg. case sg of TxInitDone i \<Rightarrow> i < 4 | RxInitDone i \<Rightarrow> i < 4 | _ \<Rightarrow> False)"
    using all_ready_iff_every_lane_done [OF s,
        of "\<lambda>sg. case sg of TxInitDone i \<Rightarrow> i < 4 | RxInitDone i \<Rightarrow> i < 4 | _ \<Rightarrow> False"]
    by (auto intro: exI [of _ 4])
  moreover have "all_ready s (\<lambda>sg. True)"
    using all_ready_iff_every_lane_done [OF s, of "\<lambda>sg. True"] by simp
  ultimately show ?thesis using s by blast
qed


text \<open>
  C2. For a constructed SoC the jesd clock domain is a two-state machine driven by the
  barrier: after every step it is ACTIVE exactly when the barrier holds and HELD_RESET
  exactly when it does not. The state changes only from HELD_RESET to ACTIVE, when every
  lane is done, and from ACTIVE to HELD_RESET, when some lane has lost its tx-done or
  rx-done signal. Nothing is latched: after any sequence of signal valuations the state
  is decided by the last one alone.
\<close>

theorem cd_jesd_two_state_machine:
  assumes "BaseSoC kw = Inr s"
  shows "(cd_jesd_step s env st = ACTIVE \<longleftrightarrow> all_ready s env)
       \<and> (cd_jesd_step s env st = HELD_RESET \<longleftrightarrow> \<not> all_ready s env)
       \<and> (cd_jesd_step s env st \<noteq> st \<longleftrightarrow>
            (st = HELD_RESET \<and> all_ready s env) \<or> (st = ACTIVE \<and> \<not> all_ready s env))
       \<and> (cd_jesd_step s env HELD_RESET = ACTIVE \<longleftrightarrow>
            (\<forall>i. 0 \<le> i \<and> i < jesd_lanes kw \<longrightarrow> env (TxInitDone i) \<and> env (RxInitDone i)))
       \<and> (cd_jesd_step s env ACTIVE = HELD_RESET \<longleftrightarrow>
            (\<exists>i. 0 \<le> i \<and> i < jesd_lanes kw \<and> \<not> (env (TxInitDone i) \<and> env (RxInitDone i))))
       \<and> cd_jesd_run s (envs @ [env]) st = (if all_ready s env then ACTIVE else HELD_RESET)"
proof -
  have step: "\<And>st'. cd_jesd_step s env st' = (if all_ready s env then ACTIVE else HELD_RESET)"
    using assms by (rule cd_jesd_step_all_ready)
  have lanes: "all_ready s env \<longleftrightarrow>
      (\<forall>i. 0 \<le> i \<and> i < jesd_lanes kw \<longrightarrow> env (TxInitDone i) \<and> env (RxInitDone i))"
    using all_ready_refines_spec [OF assms] by (simp add: all_ready_spec_iff)
  have a: "cd_jesd_step s env st = ACTIVE \<longleftrightarrow> all_ready s env"
    by (simp add: step)
  have h: "cd_jesd_step s env st = HELD_RESET \<longleftrightarrow> \<not> all_ready s env"
    by (simp add: step)
  have change: "cd_jesd_step s env st \<noteq> st \<longleftrightarrow>
      (st = HELD_RESET \<and> all_ready s env) \<or> (st = ACTIVE \<and> \<not> all_ready s env)"
    by (cases st) (simp_all add: step)
  have up: "cd_jesd_step s env HELD_RESET = ACTIVE \<longleftrightarrow>
      (\<forall>i. 0 \<le> i \<and> i < jesd_lanes kw \<longrightarrow> env (TxInitDone i) \<and> env (RxInitDone i))"
    using lanes by (simp add: step)
  have down: "cd_jesd_step s env ACTIVE = HELD_RESET \<longleftrightarrow>
      (\<exists>i. 0 \<le> i \<and> i < jesd_lanes kw \<and> \<not> (env (TxInitDone i) \<and> env (RxInitDone i)))"
    using lanes by (auto simp add: step)
  have run: "cd_jesd_run s (envs @ [env]) st = (if all_ready s env then ACTIVE else HELD_RESET)"
    by (simp add: cd_jesd_run_def step)
  from a h change up down run show ?thesis
    by (intro conjI)
qed

text \<open>The default four lanes, starting in reset: with every lane done the domain becomes
  ACTIVE; when lane 2 then loses its rx-done signal it is back in HELD_RESET; when the
  lane is done again it is ACTIVE again.\<close>

theorem cd_jesd_two_state_machine_witness:
  "\<exists>s. BaseSoC BaseSoC_defaults = Inr s
       \<and> cd_jesd_step s (\<lambda>sg. True) HELD_RESET = ACTIVE
       \<and> cd_jesd_step s (\<lambda>sg. sg \<noteq> RxInitDone 2) ACTIVE = HELD_RESET
       \<and> cd_jesd_step s (\<lambda>sg. sg \<noteq> RxInitDone 2) HELD_RESET = HELD_RESET
       \<and> cd_jesd_run s [\<lambda>sg. True, \<lambda>sg. sg \<noteq> RxInitDone 2] HELD_RESET = HELD_RESET
       \<and> cd_jesd_run s [\<lambda>sg. True, \<lambda>sg. sg \<noteq> RxInitDone 2, \<lambda>sg. True] HELD_RESET = ACTIVE"
proof -
  have l: "jesd_lanes BaseSoC_defaults = 4"
    by (simp add: BaseSoC_defaults_def)
  obtain s where s: "BaseSoC BaseSoC_defaults = Inr s"
    using BaseSoC_succeeds [of BaseSoC_defaults] l by auto
  have up: "cd_jesd_step s (\<lambda>sg. True) HELD_RESET = ACTIVE"
    using cd_jesd_two_state_machine [OF s, of "\<lambda>sg. True"] by simp
  then have r1: "all_ready s (\<lambda>sg. True)"
    using cd_jesd_two_state_machine [OF s, of "\<lambda>sg. True" HELD_RESET] by simp
  have "\<exists>i. 0 \<le> i \<and> i < jesd_lanes BaseSoC_defaults
          \<and> \<not> ((TxInitDone i \<noteq> RxInitDone 2) \<and> (RxInitDone i \<noteq> RxInitDone 2))"
    using l by (intro exI [of _ 2]) simp
  then have down: "cd_jesd_step s (\<lambda>sg. sg \<noteq> RxInitDone 2) ACTIVE = HELD_RESET"
    using cd_jesd_two_state_machine [OF s, of "\<lambda>sg. sg \<noteq> RxInitDone 2"] by simp
  then have r2: "\<not> all_ready s (\<lambda>sg. sg \<noteq> RxInitDone 2)"
    using cd_jesd_two_state_machine [OF s, of "\<lambda>sg. sg \<noteq> RxInitDone 2" ACTIVE] by simp
  have stay: "cd_jesd_step s (\<lambda>sg. sg \<noteq> RxInitDone 2) HELD_RESET = HELD_RESET"
    using r2 cd_jesd_two_state_machine [OF s, of "\<lambda>sg. sg \<noteq> RxInitDone 2" HELD_RESET] by simp
  have t2: "cd_jesd_run s ([\<lambda>sg. True] @ [\<lambda>sg. sg \<noteq> RxInitDone 2]) HELD_RESET = HELD_RESET"
    using r2 cd_jesd_two_state_machine
      [OF s, of "\<lambda>sg. sg \<noteq> RxInitDone 2" HELD_RESET "[\<lambda>sg. True]"] by simp
  have t3: "cd_jesd_run s ([\<lambda>sg. True, \<lambda>sg. sg \<noteq> RxInitDone 2] @ [\<lambda>sg. True]) HELD_RESET = ACTIVE"
    using r1 cd_jesd_two_state_machine
      [OF s, of "\<lambda>sg. True" HELD_RESET "[\<lambda>sg. True, \<lambda>sg. sg \<noteq> RxInitDone 2]"] by simp
  from s up down stay t2 t3 show ?thesis
    by (intro exI [of _ s]) simp
qed

text \<open>
  C3. The lane tables are exactly the constants of the specification: for 4 lanes, order
  \<open>[3,0,2,1]\<close> with no polarity flag set; for 8 lanes, order \<open>[3,0,2,1,7,4,6,5]\<close> with the
  flags of positions 4 to 7 set. The tables of the code hold 0 and 1 where the
  specification says false and true; read as truth values they are the lookup of the
  specification, and they are the tables that the constructed SoC carries.
\<close>

theorem remap_tables_constants:
  "rx_tables 4 = Some ([3, 0, 2, 1], [0, 0, 0, 0])
   \<and> rx_tables 8 = Some ([3, 0, 2, 1, 7, 4, 6, 5], [0, 0, 0, 0, 1, 1, 1, 1])
   \<and> map_option (apsnd (map truth)) (rx_tables 4)
       = Some ([3, 0, 2, 1], [False, False, False, False])
   \<and> map_option (apsnd (map truth)) (rx_tables 8)
       = Some ([3, 0, 2, 1, 7, 4, 6, 5], [False, False, False, False, True, True, True, True])
   \<and> map_option (apsnd (map truth)) (rx_tables 4) = remap_spec 4
   \<and> map_option (apsnd (map truth)) (rx_tables 8) = remap_spec 8
   \<and> (\<exists>s. BaseSoC (BaseSoC_defaults\<lparr> jesd_lanes := 4 \<rparr>) = Inr s
          \<and> adc08dj_phy_rx_order s = [3, 0, 2, 1]
          \<and> adc08dj_phy_rx_polarity s = [0, 0, 0, 0])
   \<and> (\<exists>s. BaseSoC (BaseSoC_defaults\<lparr> jesd_lanes := 8 \<rparr>) = Inr s
          \<and> adc08dj_phy_rx_order s = [3, 0, 2, 1, 7, 4, 6, 5]
          \<and> adc08dj_phy_rx_polarity s = [0, 0, 0, 0, 1, 1, 1, 1])"
proof -
  have t4: "rx_tables 4 = Some ([3, 0, 2, 1], [0, 0, 0, 0])"
    by (simp add: rx_tables_def)
  have t8: "rx_tables 8 = Some ([3, 0, 2, 1, 7, 4, 6, 5], [0, 0, 0, 0, 1, 1, 1, 1])"
    by (simp add: rx_tables_def)
  obtain s4 where s4: "BaseSoC (BaseSoC_defaults\<lparr> jesd_lanes := 4 \<rparr>) = Inr s4"
    using BaseSoC_succeeds [of "BaseSoC_defaults\<lparr> jesd_lanes := 4 \<rparr>"] by auto
  obtain s8 where s8: "BaseSoC (BaseSoC_defaults\<lparr> jesd_lanes := 8 \<rparr>) = Inr s8"
    using BaseSoC_succeeds [of "BaseSoC_defaults\<lparr> jesd_lanes := 8 \<rparr>"] by auto
  have c4: "adc08dj_phy_rx_order s4 = [3, 0, 2, 1] \<and> adc08dj_phy_rx_polarity s4 = [0, 0, 0, 0]"
    using BaseSoC_4(1,2) [OF _ s4] by simp
  have c8: "adc08dj_phy_rx_order s8 = [3, 0, 2, 1, 7, 4, 6, 5]
            \<and> adc08dj_phy_rx_polarity s8 = [0, 0, 0, 0, 1, 1, 1, 1]"
    using BaseSoC_8(1,2) [OF _ s8] by simp
  have b: "map_option (apsnd (map truth)) (rx_tables 4)
             = Some ([3, 0, 2, 1], [False, False, False, False])
           \<and> map_option (apsnd (map truth)) (rx_tables 8)
             = Some ([3, 0, 2, 1, 7, 4, 6, 5], [False, False, False, False, True, True, True, True])"
    by (simp add: t4 t8 truth_def)
  have r: "remap_spec 4 = Some ([3, 0, 2, 1], [False, False, False, False])
           \<and> remap_spec 8
             = Some ([3, 0, 2, 1, 7, 4, 6, 5], [False, False, False, False, True, True, True, True])"
    by (simp add: remap_spec_def)
  from t4 t8 b r s4 s8 c4 c8 show ?thesis by simp
qed

text \<open>
  C4. For a SoC built with \<open>N\<close> lanes (4 or 8) and every logical position \<open>k\<close> in
  \<open>[0, N)\<close>, position \<open>k\<close> of the transceiver list handed to the link-layer core is the
  transceiver created for physical lane \<open>order[k]\<close>: its pads, its lane number and its
  init-done signals are those of that physical lane.
\<close>

theorem logical_lane_fed_by_order:
  assumes "BaseSoC kw = Inr s" and "0 \<le> k" and "k < jesd_lanes kw"
  shows "\<exists>n p. getitem (adc08dj_phy_rx_order s) k = Inr n
             \<and> getitem (jesd_phys s) n = Inr p
             \<and> getitem (core_phys (jesd_rx_core s)) k = Inr p
             \<and> rx_pads p = n \<and> tx_pads p = n \<and> phy_n p = Some n
             \<and> rx_init_done p = Sig (RxInitDone n)"
proof -
  from assms(1) consider "jesd_lanes kw = 4" | "jesd_lanes kw = 8"
    using BaseSoC_lanes by blast
  then show ?thesis
  proof cases
    case 1
    with assms(2,3) have "k = 0 \<or> k = 1 \<or> k = 2 \<or> k = 3"
      by (simp add: lanes_below_4)
    then show ?thesis
      using BaseSoC_4(1,3,4,5) [OF 1 assms(1)]
      by (elim disjE) (simp_all add: getitem_def lane_phy_fields)
  next
    case 2
    with assms(2,3) have
      "k = 0 \<or> k = 1 \<or> k = 2 \<or> k = 3 \<or> k = 4 \<or> k = 5 \<or> k = 6 \<or> k = 7"
      by (simp add: lanes_below_8)
    then show ?thesis
      using BaseSoC_8(1,3,4,5) [OF 2 assms(1)]
      by (elim disjE) (simp_all add: getitem_def lane_phy_fields)
  qed
qed

text \<open>With the default four lanes, physical lane 3 feeds logical position 0.\<close>

theorem logical_lane_fed_by_order_witness:
  "\<exists>s p. BaseSoC BaseSoC_defaults = Inr s
         \<and> getitem (adc08dj_phy_rx_order s) 0 = Inr 3
         \<and> getitem (core_phys (jesd_rx_core s)) 0 = Inr p
         \<and> getitem (jesd_phys s) 3 = Inr p
         \<and> rx_pads p = 3"
proof -
  have l: "jesd_lanes BaseSoC_defaults = 4"
    by (simp add: BaseSoC_defaults_def)
  obtain s where s: "BaseSoC BaseSoC_defaults = Inr s"
    using BaseSoC_succeeds [of BaseSoC_defaults] l by auto
  have o: "getitem (adc08dj_phy_rx_order s) 0 = Inr 3"
    using BaseSoC_4(1) [OF l s] by (simp add: getitem_def)
  show ?thesis
    using logical_lane_fed_by_order [OF s, of 0] l o s by auto
qed

text \<open>
  C5. For a SoC built with \<open>N\<close> lanes (4 or 8) and every logical position \<open>k\<close> in
  \<open>[0, N)\<close>, the receive polarity configured on the transceiver that feeds logical lane
  \<open>k\<close> is the table's flag at \<open>k\<close>, so that lane is inverted exactly when
  \<open>polarity[k]\<close> is set. The transceiver was configured with the flag at its physical
  index \<open>order[k]\<close>; under both tables the two flags agree.
\<close>

theorem logical_lane_polarity:
  assumes "BaseSoC kw = Inr s" and "0 \<le> k" and "k < jesd_lanes kw"
  shows "\<exists>n p f. getitem (adc08dj_phy_rx_order s) k = Inr n
               \<and> getitem (core_phys (jesd_rx_core s)) k = Inr p
               \<and> getitem (adc08dj_phy_rx_polarity s) k = Inr f
               \<and> getitem (adc08dj_phy_rx_polarity s) n = Inr f
               \<and> rx_polarity p = f
               \<and> truth (rx_polarity p) = truth f"
proof -
  from assms(1) consider "jesd_lanes kw = 4" | "jesd_lanes kw = 8"
    using BaseSoC_lanes by blast
  then show ?thesis
  proof cases
    case 1
    with assms(2,3) have "k = 0 \<or> k = 1 \<or> k = 2 \<or> k = 3"
      by (simp add: lanes_below_4)
    then show ?thesis
      using BaseSoC_4(1,2,4,5) [OF 1 assms(1)]
      by (elim disjE) (simp_all add: getitem_def lane_phy_fields)
  next
    case 2
    with assms(2,3) have
      "k = 0 \<or> k = 1 \<or> k = 2 \<or> k = 3 \<or> k = 4 \<or> k = 5 \<or> k = 6 \<or> k = 7"
      by (simp add: lanes_below_8)
    then show ?thesis
      using BaseSoC_8(1,2,4,5) [OF 2 assms(1)]
      by (elim disjE) (simp_all add: getitem_def lane_phy_fields)
  qed
qed

text \<open>Eight lanes, logical position 4: fed by physical lane 7, inverted, flag set at
  both indices.\<close>

theorem logical_lane_polarity_witness:
  "\<exists>s p. BaseSoC (BaseSoC_defaults\<lparr> jesd_lanes := 8 \<rparr>) = Inr s
         \<and> getitem (adc08dj_phy_rx_order s) 4 = Inr 7
         \<and> getitem (core_phys (jesd_rx_core s)) 4 = Inr p
         \<and> getitem (adc08dj_phy_rx_polarity s) 4 = Inr 1
         \<and> getitem (adc08dj_phy_rx_polarity s) 7 = Inr 1
         \<and> rx_polarity p = 1 \<and> truth (rx_polarity p)"
proof -
  have l: "jesd_lanes (BaseSoC_defaults\<lparr> jesd_lanes := 8 \<rparr>) = 8"
    by simp
  obtain s where s: "BaseSoC (BaseSoC_defaults\<lparr> jesd_lanes := 8 \<rparr>) = Inr s"
    using BaseSoC_succeeds [of "BaseSoC_defaults\<lparr> jesd_lanes := 8 \<rparr>"] by auto
  have o: "getitem (adc08dj_phy_rx_order s) 4 = Inr 7"
    using BaseSoC_8(1) [OF l s] by (simp add: getitem_def)
  have f: "getitem (adc08dj_phy_rx_polarity s) 4 = Inr 1"
    using BaseSoC_8(2) [OF l s] by (simp add: getitem_def)
  show ?thesis
    using logical_lane_polarity [OF s, of 4] o f s by (auto simp add: truth_def)
qed

text \<open>
  C6. For a constructed SoC the link status is the expression
  \<open>(enable AND jsync) AND (enable AND jsync)\<close>, and under every valuation of the signals
  it equals \<open>enable AND jsync\<close>. It is a function of the current values of the two
  signals only.
\<close>

theorem link_status_is_enable_and_sync:
  assumes "BaseSoC kw = Inr s"
  shows "jesd_link_status s =
           OpAnd (OpAnd (Sig CoreEnable) (Sig CoreJsync)) (OpAnd (Sig CoreEnable) (Sig CoreJsync))
       \<and> eval_expr env (jesd_link_status s) = (env CoreEnable \<and> env CoreJsync)"
  using BaseSoC_fields(2) [OF assms] by auto

text \<open>The four combinations of the two inputs, on the default SoC.\<close>

theorem link_status_is_enable_and_sync_witness:
  "\<exists>s. BaseSoC BaseSoC_defaults = Inr s
       \<and> (\<forall>e j. eval_expr (\<lambda>sg. case sg of CoreEnable \<Rightarrow> e | CoreJsync \<Rightarrow> j | _ \<Rightarrow> False)
                   (jesd_link_status s) = (e \<and> j))
       \<and> \<not> eval_expr (\<lambda>sg. sg = CoreEnable) (jesd_link_status s)
       \<and> \<not> eval_expr (\<lambda>sg. sg = CoreJsync) (jesd_link_status s)
       \<and> \<not> eval_expr (\<lambda>sg. False) (jesd_link_status s)
       \<and> eval_expr (\<lambda>sg. True) (jesd_link_status s)"
proof -
  have l: "jesd_lanes BaseSoC_defaults = 4"
    by (simp add: BaseSoC_defaults_def)
  obtain s where s: "BaseSoC BaseSoC_defaults = Inr s"
    using BaseSoC_succeeds [of BaseSoC_defaults] l by auto
  have "\<And>env. eval_expr env (jesd_link_status s) = (env CoreEnable \<and> env CoreJsync)"
    using link_status_is_enable_and_sync [OF s] by simp
  then show ?thesis using s by simp
qed

text \<open>
  C7. Construction fails with an assertion error for every lane count other than 4 and
  8, and succeeds for 4 and for 8. No table exists for another lane count: both table
  names stay unassigned, and even the body without the assertion raises instead of
  continuing with some table.
\<close>

theorem unsupported_lane_count_rejected:
  "(jesd_lanes kw \<noteq> 4 \<and> jesd_lanes kw \<noteq> 8 \<longrightarrow>
      BaseSoC kw = Inl AssertionError
      \<and> rx_tables (jesd_lanes kw) = None
      \<and> BaseSoC_body kw = Inl UnboundLocalError)
   \<and> (jesd_lanes kw = 4 \<or> jesd_lanes kw = 8 \<longrightarrow> (\<exists>s. BaseSoC kw = Inr s))"
proof (intro conjI impI)
  assume n: "jesd_lanes kw \<noteq> 4 \<and> jesd_lanes kw \<noteq> 8"
  then show "BaseSoC kw = Inl AssertionError"
    by (simp add: BaseSoC_def)
  from n show "rx_tables (jesd_lanes kw) = None"
    by (simp add: rx_tables_def)
  from n show "BaseSoC_body kw = Inl UnboundLocalError"
    by (simp add: BaseSoC_body_unbound)
next
  assume "jesd_lanes kw = 4 \<or> jesd_lanes kw = 8"
  then show "\<exists>s. BaseSoC kw = Inr s"
    by (rule BaseSoC_succeeds)
qed

text \<open>Five lanes are rejected, the default four are accepted.\<close>

theorem unsupported_lane_count_rejected_witness:
  "BaseSoC (BaseSoC_defaults\<lparr> jesd_lanes := 5 \<rparr>) = Inl AssertionError
   \<and> rx_tables 5 = None
   \<and> (\<exists>s. BaseSoC BaseSoC_defaults = Inr s)"
  using unsupported_lane_count_rejected [of "BaseSoC_defaults\<lparr> jesd_lanes := 5 \<rparr>"]
    unsupported_lane_count_rejected [of BaseSoC_defaults]
  by (simp add: BaseSoC_defaults_def)

text \<open>
  C8. For both lane counts \<open>N\<close>, 4 and 8, the order table and the polarity table have
  length \<open>N\<close>, and the order table is a permutation of \<open>0, ..., N-1\<close>: no index twice,
  none missing.
\<close>

theorem tables_lengths_and_permutation:
  assumes "N = 4 \<or> N = 8"
  shows "\<exists>ord pol. rx_tables N = Some (ord, pol)
                 \<and> int (length ord) = N \<and> int (length pol) = N
                 \<and> distinct ord
                 \<and> set ord = {i. 0 \<le> i \<and> i < N}
                 \<and> mset ord = mset (range_py N)"
  using assms
proof
  assume n: "N = 4"
  have "set [3, 0, 2, 1] = set (range_py 4)"
    by (auto simp add: range_py_4)
  then have "set [3, 0, 2, 1] = {i. 0 \<le> i \<and> i < (4::int)}"
    by (simp only: set_range_py)
  with n show ?thesis
    by (simp add: rx_tables_def range_py_4)
next
  assume n: "N = 8"
  have "set [3, 0, 2, 1, 7, 4, 6, 5] = set (range_py 8)"
    by (auto simp add: range_py_8)
  then have "set [3, 0, 2, 1, 7, 4, 6, 5] = {i. 0 \<le> i \<and> i < (8::int)}"
    by (simp only: set_range_py)
  with n show ?thesis
    by (simp add: rx_tables_def range_py_8)
qed

text \<open>The eight-lane table.\<close>

theorem tables_lengths_and_permutation_witness:
  "\<exists>ord pol. rx_tables 8 = Some (ord, pol)
            \<and> length ord = 8 \<and> length pol = 8
            \<and> distinct ord \<and> set ord = {i. 0 \<le> i \<and> i < 8}"
proof -
  obtain ord pol where "rx_tables 8 = Some (ord, pol)"
    and "int (length ord) = 8" and "int (length pol) = 8"
    and "distinct ord" and "set ord = {i. 0 \<le> i \<and> i < 8}"
    using tables_lengths_and_permutation [of 8] by auto
  then show ?thesis by auto
qed

text \<open>
  C9. For a constructed SoC every transceiver, in physical order and as handed to the
  link-layer core, has transmit polarity 0; the flags of the polarity table are the
  receive polarities of the transceivers, in physical order.
\<close>

theorem tx_polarity_never_inverted:
  assumes "BaseSoC kw = Inr s"
  shows "(\<forall>p \<in> set (jesd_phys s). tx_polarity p = 0)
       \<and> (\<forall>p \<in> set (core_phys (jesd_rx_core s)). tx_polarity p = 0)
       \<and> map rx_polarity (jesd_phys s) = adc08dj_phy_rx_polarity s"
proof -
  have "list_all (\<lambda>p. tx_polarity p = 0) (jesd_phys s)"
    using BaseSoC_body_parts(1) [OF assms] by (rule jesd_phys_loop_tx_polarity) simp
  then have tx: "\<forall>p \<in> set (jesd_phys s). tx_polarity p = 0"
    by (simp add: list_all_iff)
  have "set (core_phys (jesd_rx_core s)) \<subseteq> set (jesd_phys s)"
    using BaseSoC_body_parts(2,3) [OF assms] select_phys_subset by simp
  with tx have core: "\<forall>p \<in> set (core_phys (jesd_rx_core s)). tx_polarity p = 0"
    by blast
  from assms consider "jesd_lanes kw = 4" | "jesd_lanes kw = 8"
    using BaseSoC_lanes by blast
  then have rx: "map rx_polarity (jesd_phys s) = adc08dj_phy_rx_polarity s"
  proof cases
    case 1
    then show ?thesis
      using BaseSoC_4(2,3) [OF 1 assms] by (simp add: lane_phy_fields)
  next
    case 2
    then show ?thesis
      using BaseSoC_8(2,3) [OF 2 assms] by (simp add: lane_phy_fields)
  qed
  from tx core rx show ?thesis by simp
qed

text \<open>Eight lanes: the receive polarities are the table, with four flags set, and no
  transmit polarity is set.\<close>

theorem tx_polarity_never_inverted_witness:
  "\<exists>s. BaseSoC (BaseSoC_defaults\<lparr> jesd_lanes := 8 \<rparr>) = Inr s
       \<and> length (jesd_phys s) = 8
       \<and> (\<forall>p \<in> set (jesd_phys s). tx_polarity p = 0)
       \<and> map rx_polarity (jesd_phys s) = [0, 0, 0, 0, 1, 1, 1, 1]"
proof -
  have l: "jesd_lanes (BaseSoC_defaults\<lparr> jesd_lanes := 8 \<rparr>) = 8"
    by simp
  obtain s where s: "BaseSoC (BaseSoC_defaults\<lparr> jesd_lanes := 8 \<rparr>) = Inr s"
    using BaseSoC_succeeds [of "BaseSoC_defaults\<lparr> jesd_lanes := 8 \<rparr>"] by auto
  have len: "length (jesd_phys s) = 8"
    using BaseSoC_8(3) [OF l s] by simp
  have tx: "\<forall>p \<in> set (jesd_phys s). tx_polarity p = 0"
    and rx: "map rx_polarity (jesd_phys s) = adc08dj_phy_rx_polarity s"
    using tx_polarity_never_inverted [OF s] by simp_all
  have "map rx_polarity (jesd_phys s) = [0, 0, 0, 0, 1, 1, 1, 1]"
    using rx BaseSoC_8(2) [OF l s] by simp
  with tx len s show ?thesis by (intro exI [of _ s]) simp
qed

text \<open>
  C10. The defaults of BaseSoC are four lanes, framing and scrambling enabled and
  \<open>stpl_random\<close> disabled. The build driver passes only the system clock frequency, so
  whatever the parsed arguments, it constructs the SoC with these defaults: four
  transceivers and the four-lane tables, never the eight-lane ones.
\<close>

theorem cli_build_uses_default_four_lanes:
  "jesd_lanes BaseSoC_defaults = 4
   \<and> jesd_framing BaseSoC_defaults \<and> jesd_scrambling BaseSoC_defaults
   \<and> \<not> jesd_stpl_random BaseSoC_defaults
   \<and> main_kwargs a = BaseSoC_defaults\<lparr> sys_clk_freq := args_sys_clk_freq a \<rparr>
   \<and> (\<exists>r. main a = Inr r
          \<and> BaseSoC (main_kwargs a) = Inr (main_soc r)
          \<and> adc08dj_phy_rx_order (main_soc r) = [3, 0, 2, 1]
          \<and> adc08dj_phy_rx_polarity (main_soc r) = [0, 0, 0, 0]
          \<and> rx_tables 8 \<noteq> Some (adc08dj_phy_rx_order (main_soc r), adc08dj_phy_rx_polarity (main_soc r))
          \<and> length (jesd_phys (main_soc r)) = 4
          \<and> framing (settings_rx (main_soc r)) \<and> scrambling (settings_rx (main_soc r))
          \<and> \<not> core_stpl_random (jesd_rx_core (main_soc r)))"
proof -
  have d: "jesd_lanes BaseSoC_defaults = 4 \<and> jesd_framing BaseSoC_defaults
           \<and> jesd_scrambling BaseSoC_defaults \<and> \<not> jesd_stpl_random BaseSoC_defaults"
    by (simp add: BaseSoC_defaults_def)
  have k: "jesd_lanes (main_kwargs a) = 4 \<and> jesd_framing (main_kwargs a)
           \<and> jesd_scrambling (main_kwargs a) \<and> \<not> jesd_stpl_random (main_kwargs a)"
    by (simp add: main_kwargs_def BaseSoC_defaults_def)
  then have l: "jesd_lanes (main_kwargs a) = 4" by simp
  obtain s where s: "BaseSoC (main_kwargs a) = Inr s"
    using BaseSoC_succeeds [of "main_kwargs a"] l by auto
  obtain r where r: "main a = Inr r" and rs: "main_soc r = s"
    using s by (simp add: main_def bind_err_def)
  have t: "adc08dj_phy_rx_order s = [3, 0, 2, 1] \<and> adc08dj_phy_rx_polarity s = [0, 0, 0, 0]
           \<and> length (jesd_phys s) = 4"
    using BaseSoC_4(1,2,3) [OF l s] by simp
  have f: "framing (settings_rx s) \<and> scrambling (settings_rx s)
           \<and> \<not> core_stpl_random (jesd_rx_core s)"
    using BaseSoC_fields(4,5,6) [OF s] k by simp
  have n: "rx_tables 8 \<noteq> Some ([3, 0, 2, 1], [0, 0, 0, 0])"
    by (simp add: rx_tables_def)
  have "main a = Inr r \<and> BaseSoC (main_kwargs a) = Inr (main_soc r)
        \<and> adc08dj_phy_rx_order (main_soc r) = [3, 0, 2, 1]
        \<and> adc08dj_phy_rx_polarity (main_soc r) = [0, 0, 0, 0]
        \<and> rx_tables 8 \<noteq> Some (adc08dj_phy_rx_order (main_soc r), adc08dj_phy_rx_polarity (main_soc r))
        \<and> length (jesd_phys (main_soc r)) = 4
        \<and> framing (settings_rx (main_soc r)) \<and> scrambling (settings_rx (main_soc r))
        \<and> \<not> core_stpl_random (jesd_rx_core (main_soc r))"
    using r rs s t f n by simp
  then have "\<exists>r. main a = Inr r \<and> BaseSoC (main_kwargs a) = Inr (main_soc r)
        \<and> adc08dj_phy_rx_order (main_soc r) = [3, 0, 2, 1]
        \<and> adc08dj_phy_rx_polarity (main_soc r) = [0, 0, 0, 0]
        \<and> rx_tables 8 \<noteq> Some (adc08dj_phy_rx_order (main_soc r), adc08dj_phy_rx_polarity (main_soc r))
        \<and> length (jesd_phys (main_soc r)) = 4
        \<and> framing (settings_rx (main_soc r)) \<and> scrambling (settings_rx (main_soc r))
        \<and> \<not> core_stpl_random (jesd_rx_core (main_soc r))"
    by (rule exI)
  with d show ?thesis by (simp add: main_kwargs_def)
qed

text \<open>A build with every flag set and another clock frequency still has four lanes.\<close>

theorem cli_build_uses_default_four_lanes_witness:
  "\<exists>r. main \<lparr> build = True, load = True, args_sys_clk_freq = 100000000, driver = True \<rparr> = Inr r
       \<and> adc08dj_phy_rx_order (main_soc r) = [3, 0, 2, 1]
       \<and> length (jesd_phys (main_soc r)) = 4"
  using cli_build_uses_default_four_lanes
    [of "\<lparr> build = True, load = True, args_sys_clk_freq = 100000000, driver = True \<rparr>"]
  by auto

end
